theory Spec2Isabelle
  imports Main "HOL-Library.Sublist" "HOL-Library.Product_Lexorder"
begin

section \<open>Configuration (app.py, lines 8-22)\<close>

definition DATA_URL :: string where
  "DATA_URL = ''https://covid.ourworldindata.org/data/owid-covid-data.csv''"

definition DATA_FOLDER :: string where
  "DATA_FOLDER = ''covid_data''"

definition LOG_FILE :: string where
  "LOG_FILE = ''download_log.txt''"

definition DEFAULT_COUNTRIES :: "string list" where
  "DEFAULT_COUNTRIES = [''United States'']"

text \<open>
  \<open>today\<close> is computed once, when the module is imported, as the date label
  \<open>%Y-%m-%d\<close>; every function below takes it as a parameter.
  \<open>os.path.join\<close> is the POSIX one.
\<close>

definition filename :: "string \<Rightarrow> string" where
  "filename today = ''owid-covid-data_'' @ today @ ''.csv''"

definition filepath :: "string \<Rightarrow> string" where
  "filepath today = DATA_FOLDER @ ''/'' @ filename today"

section \<open>The fetcher: \<open>download_if_needed\<close> (lines 25-36)\<close>

text \<open>
  The world the fetcher acts on: the regular files it can see (path to contents), the
  number of calls of \<open>requests.get\<close> made so far, and the lines printed.
  The cache folder exists (line 17 creates it), so the two writes do not fail.
\<close>

record world =
  files :: "string \<rightharpoonup> string"
  requests :: nat
  stdout :: "string list"

record response =
  status_code :: nat
  content :: string

text \<open>\<open>requests.get url\<close>: \<open>None\<close> when the call itself raises (no connection).\<close>

type_synonym transport = "string \<Rightarrow> response option"

text \<open>
  What the code can raise. \<open>NameError\<close> and \<open>KeyError\<close> stand for a global \<open>df\<close> that is
  bound to no frame and for a label or column that is not there; after loading neither
  happens.
\<close>

datatype error =
    ConnectionError
  | HTTPError nat
  | NameError
  | ValueError
  | KeyError

text \<open>Python's \<open>needle in hay\<close> on strings.\<close>

fun str_contains :: "string \<Rightarrow> string \<Rightarrow> bool" where
  "str_contains needle [] = (needle = [])"
| "str_contains needle (c # cs) = (prefix needle (c # cs) \<or> str_contains needle cs)"

text \<open>Lines 26-28: the ledger exists and today's label occurs in what it holds.\<close>

definition already_logged :: "string \<Rightarrow> world \<Rightarrow> bool" where
  "already_logged today w =
     (case files w LOG_FILE of None \<Rightarrow> False | Some c \<Rightarrow> str_contains today c)"

text \<open>\<open>r.raise_for_status()\<close> raises for the 4xx and 5xx codes.\<close>

definition raise_for_status :: "response \<Rightarrow> error + unit" where
  "raise_for_status r =
     (if 400 \<le> status_code r \<and> status_code r < 600 then Inl (HTTPError (status_code r))
      else Inr ())"

definition ledger_line :: "string \<Rightarrow> string" where
  "ledger_line today = today @ '' - Downloaded'' @ [CHR 0x0A]"

text \<open>Mode \<open>"wb"\<close> replaces the file; mode \<open>"a"\<close> creates it when absent.\<close>

definition write_file :: "string \<Rightarrow> string \<Rightarrow> world \<Rightarrow> world" where
  "write_file p c w = w\<lparr>files := (files w)(p \<mapsto> c)\<rparr>"

definition append_file :: "string \<Rightarrow> string \<Rightarrow> world \<Rightarrow> world" where
  "append_file p c w =
     w\<lparr>files := (files w)(p \<mapsto> (case files w p of None \<Rightarrow> [] | Some old \<Rightarrow> old) @ c)\<rparr>"

definition download_if_needed :: "string \<Rightarrow> transport \<Rightarrow> world \<Rightarrow> (error + unit) \<times> world" where
  "download_if_needed today net w =
     (if already_logged today w then (Inr (), w)
      else
        let w1 = w\<lparr>stdout := stdout w @ [''[INFO] Downloading COVID dataset...'']\<rparr>;
            w2 = w1\<lparr>requests := requests w1 + 1\<rparr>
        in case net DATA_URL of
             None \<Rightarrow> (Inl ConnectionError, w2)
           | Some r \<Rightarrow>
               (case raise_for_status r of
                  Inl e \<Rightarrow> (Inl e, w2)
                | Inr _ \<Rightarrow>
                    (Inr (), append_file LOG_FILE (ledger_line today)
                               (write_file (filepath today) (content r) w2))))"

section \<open>Data frames\<close>

text \<open>
  A calendar date is (year, month, day), compared lexicographically, which is the
  chronological order. The date column is taken as parsed: every row has a date
  (line 42 raises on a cell it cannot parse). The metric (\<open>total_cases\<close>) is a count,
  an integer here (pandas holds it as a float, which is exact on counts and on the sign
  of their differences); \<open>None\<close> is the missing value (NaN).
\<close>

type_synonym date = "nat \<times> nat \<times> nat"

record row =
  idx :: nat
  date :: date
  location :: string
  metric :: "int option"

text \<open>
  A data frame: its rows, each under its index label, and the \<open>delta\<close> column when the
  frame has one (\<open>None\<close>: no such column).
\<close>

record frame =
  rows :: "row list"
  delta :: "int option list option"

text \<open>The parsed CSV file: one (date, location, total_cases) triple per line.\<close>

type_synonym csv = "(date \<times> string \<times> int option) list"

text \<open>\<open>pd.read_csv\<close> labels the rows 0, 1, 2, ... in file order.\<close>

definition read_csv :: "csv \<Rightarrow> frame" where
  "read_csv c =
     \<lparr>rows = map (\<lambda>(i, (d, l, m)). \<lparr>idx = i, date = d, location = l, metric = m\<rparr>)
                 (zip [0..<length c] c),
      delta = None\<rparr>"

text \<open>Boolean indexing \<open>f[mask]\<close>: a new frame of the rows whose mask entry is true.\<close>

definition keep :: "bool list \<Rightarrow> 'a list \<Rightarrow> 'a list" where
  "keep bs xs = map snd (filter fst (zip bs xs))"

definition boolean_index :: "frame \<Rightarrow> bool list \<Rightarrow> frame" where
  "boolean_index f bs = \<lparr>rows = keep bs (rows f), delta = map_option (keep bs) (delta f)\<rparr>"

text \<open>
  \<open>f.sort_values("date")\<close>: a new frame, ascending by date. Rows of equal date stay in
  their earlier order here (pandas leaves their order to the sorting algorithm).
\<close>

definition sort_values :: "frame \<Rightarrow> frame" where
  "sort_values f =
     (case delta f of
        None \<Rightarrow> \<lparr>rows = sort_key date (rows f), delta = None\<rparr>
      | Some ds \<Rightarrow>
          (let ps = sort_key (\<lambda>p. date (fst p)) (zip (rows f) ds)
           in \<lparr>rows = map fst ps, delta = Some (map snd ps)\<rparr>))"

text \<open>\<open>Series.diff()\<close>: entry i minus entry i - 1; the first entry is missing.\<close>

fun minus_na :: "int option \<Rightarrow> int option \<Rightarrow> int option" where
  "minus_na (Some a) (Some b) = Some (a - b)"
| "minus_na _ _ = None"

definition diff :: "int option list \<Rightarrow> int option list" where
  "diff vs = (case vs of [] \<Rightarrow> [] | v # rest \<Rightarrow> None # map (\<lambda>(a, b). minus_na a b) (zip rest vs))"

text \<open>\<open>series > 0\<close>: false on a missing value.\<close>

fun gt_zero :: "int option \<Rightarrow> bool" where
  "gt_zero (Some v) = (0 < v)"
| "gt_zero None = False"

text \<open>
  \<open>f.last_valid_index()\<close>: the label of the last row with a value in some column, or
  \<open>None\<close>. Every row has a date, so it is the last row.
\<close>

definition last_valid_index :: "frame \<Rightarrow> nat option" where
  "last_valid_index f = (case rows f of [] \<Rightarrow> None | _ \<Rightarrow> Some (idx (last (rows f))))"

text \<open>\<open>f.loc[i, column]\<close> goes through the row labelled i; \<open>KeyError\<close> when there is none.\<close>

definition loc :: "frame \<Rightarrow> nat \<Rightarrow> error + row" where
  "loc f i = (case find (\<lambda>r. idx r = i) (rows f) of None \<Rightarrow> Inl KeyError | Some r \<Rightarrow> Inr r)"

text \<open>\<open>f["date"].min()\<close> and \<open>.max()\<close>: \<open>None\<close> (NaT) on a frame without rows.\<close>

definition date_min :: "frame \<Rightarrow> date option" where
  "date_min f = (case rows f of [] \<Rightarrow> None | r # rs \<Rightarrow> Some (fold min (map date rs) (date r)))"

definition date_max :: "frame \<Rightarrow> date option" where
  "date_max f = (case rows f of [] \<Rightarrow> None | r # rs \<Rightarrow> Some (fold max (map date rs) (date r)))"

text \<open>\<open>strftime("%b %d, %Y")\<close>, on the dates a timestamp can hold (years 1677 to 2262).\<close>

definition digit :: "nat \<Rightarrow> char" where
  "digit n = ''0123456789'' ! (n mod 10)"

definition month_abbr :: "nat \<Rightarrow> string" where
  "month_abbr m =
     (if m = 1 then ''Jan'' else if m = 2 then ''Feb'' else if m = 3 then ''Mar''
      else if m = 4 then ''Apr'' else if m = 5 then ''May'' else if m = 6 then ''Jun''
      else if m = 7 then ''Jul'' else if m = 8 then ''Aug'' else if m = 9 then ''Sep''
      else if m = 10 then ''Oct'' else if m = 11 then ''Nov'' else ''Dec'')"

fun strftime :: "date \<Rightarrow> string" where
  "strftime (y, m, d) =
     month_abbr m @ '' '' @ [digit (d div 10), digit d] @ '', ''
       @ [digit (y div 1000), digit (y div 100), digit (y div 10), digit y]"

section \<open>The process state\<close>

text \<open>
  Data frames are objects: the heap lists them, an address is a position in it, and the
  module's global \<open>df\<close> holds an address. A new frame goes to the end of the heap; an
  assignment to a column changes the frame at its address.
\<close>

record pstate =
  heap :: "frame list"
  df :: nat

definition alloc :: "frame \<Rightarrow> frame list \<Rightarrow> nat \<times> frame list" where
  "alloc f h = (length h, h @ [f])"

definition deref :: "frame list \<Rightarrow> nat \<Rightarrow> frame option" where
  "deref h a = (if a < length h then Some (h ! a) else None)"

text \<open>\<open>f["delta"] = column\<close>, in place.\<close>

definition set_delta :: "nat \<Rightarrow> int option list \<Rightarrow> frame list \<Rightarrow> frame list" where
  "set_delta a col h = (if a < length h then h[a := (h ! a)\<lparr>delta := Some col\<rparr>] else h)"

section \<open>The loader (lines 41-43)\<close>

text \<open>
  Line 41 makes the frame of the file, line 42 parses its dates in place (they are
  parsed already here), line 43 makes a second frame of the rows that have the metric and
  binds \<open>df\<close> to it.
\<close>

definition load :: "csv \<Rightarrow> pstate" where
  "load c =
     (let (a0, h0) = alloc (read_csv c) [];
          f0 = h0 ! a0;
          (a1, h1) = alloc (boolean_index f0 (map (\<lambda>r. metric r \<noteq> None) (rows f0))) h0
      in \<lparr>heap = h1, df = a1\<rparr>)"

section \<open>Figures\<close>

text \<open>
  What the code sets of a \<open>go.Scatter\<close>, an annotation and the layout; a field the code
  leaves alone is \<open>None\<close>. The annotations of a figure live in its layout.
\<close>

record scatter =
  trace_x :: "date list"
  trace_y :: "int option list"
  trace_mode :: string
  trace_name :: "string option"
  line_width :: "nat option"
  marker :: "(string \<times> nat) option"
  showlegend :: "bool option"

record annotation =
  ann_x :: date
  ann_y :: "int option"
  ann_text :: string
  showarrow :: bool
  arrowhead :: nat
  ann_ax :: int
  ann_ay :: int
  ann_font_color :: string
  bgcolor :: string
  bordercolor :: string
  borderwidth :: nat

record layout =
  annotations :: "annotation list"
  title :: "string option"
  xaxis_title :: "string option"
  yaxis_title :: "string option"
  plot_bgcolor :: "string option"
  paper_bgcolor :: "string option"
  font_color :: "string option"
  xaxis_gridcolor :: "string option"
  yaxis_gridcolor :: "string option"
  margin :: "(nat \<times> nat \<times> nat \<times> nat) option"

record figure =
  data :: "scatter list"
  layout :: layout

definition default_layout :: layout where
  "default_layout =
     \<lparr>annotations = [], title = None, xaxis_title = None, yaxis_title = None,
      plot_bgcolor = None, paper_bgcolor = None, font_color = None,
      xaxis_gridcolor = None, yaxis_gridcolor = None, margin = None\<rparr>"

text \<open>\<open>go.Figure()\<close>\<close>

definition Figure :: figure where
  "Figure = \<lparr>data = [], layout = default_layout\<rparr>"

definition add_trace :: "scatter \<Rightarrow> figure \<Rightarrow> figure" where
  "add_trace t fig = fig\<lparr>data := data fig @ [t]\<rparr>"

definition add_annotation :: "annotation \<Rightarrow> figure \<Rightarrow> figure" where
  "add_annotation a fig =
     fig\<lparr>layout := (layout fig)\<lparr>annotations := annotations (layout fig) @ [a]\<rparr>\<rparr>"

text \<open>Lines 89-95, 104-110 and 113-125: the three things a country can add.\<close>

definition line_trace :: "string \<Rightarrow> date list \<Rightarrow> int option list \<Rightarrow> scatter" where
  "line_trace country xs ys =
     \<lparr>trace_x = xs, trace_y = ys, trace_mode = ''lines'',
      trace_name = Some country, line_width = Some 2, marker = None, showlegend = None\<rparr>"

definition marker_trace :: "date \<Rightarrow> int option \<Rightarrow> scatter" where
  "marker_trace last_date last_value =
     \<lparr>trace_x = [last_date], trace_y = [last_value], trace_mode = ''markers'',
      trace_name = None, line_width = None, marker = Some (''red'', 10),
      showlegend = Some False\<rparr>"

definition stop_annotation :: "string \<Rightarrow> date \<Rightarrow> int option \<Rightarrow> annotation" where
  "stop_annotation country last_date last_value =
     \<lparr>ann_x = last_date, ann_y = last_value,
      ann_text = ''Reporting stopped for '' @ country,
      showarrow = True, arrowhead = 2, ann_ax = 0, ann_ay = - 40,
      ann_font_color = ''red'', bgcolor = ''#222'', bordercolor = ''red'', borderwidth = 1\<rparr>"

text \<open>
  Line 128. The dash between the two dates is U+2013, three bytes in UTF-8.
\<close>

definition chart_title :: "string \<Rightarrow> string \<Rightarrow> string" where
  "chart_title global_min_date global_max_date =
     ''Total COVID-19 Cases ('' @ global_min_date
       @ [CHR 0x20, CHR 0xE2, CHR 0x80, CHR 0x93, CHR 0x20] @ global_max_date @ '')''"

definition update_layout :: "string \<Rightarrow> string \<Rightarrow> figure \<Rightarrow> figure" where
  "update_layout global_min_date global_max_date fig =
     fig\<lparr>layout := (layout fig)
       \<lparr>title := Some (chart_title global_min_date global_max_date),
        xaxis_title := Some ''Date'',
        yaxis_title := Some ''Total Cases'',
        plot_bgcolor := Some ''#0d0d0d'',
        paper_bgcolor := Some ''#0d0d0d'',
        font_color := Some ''#ffffff'',
        xaxis_gridcolor := Some ''#333333'',
        yaxis_gridcolor := Some ''#333333'',
        margin := Some (60, 30, 60, 50)\<rparr>\<rparr>"

section \<open>The renderer: \<open>update_chart\<close> (lines 76-139)\<close>

text \<open>
  The body of the loop over the selection (lines 85-125), for the country \<open>country\<close>,
  with \<open>df\<close> at address \<open>dfa\<close>. Line 85 makes two frames (the selection of the rows, then
  its sorted copy \<open>country_df\<close>), line 86 gives \<open>country_df\<close> its \<open>delta\<close> column, line 98
  makes a third frame. In line 99 the label found is tested for truth: \<open>None\<close> and the
  label 0 are both false.
\<close>

definition country_step ::
  "nat \<Rightarrow> string \<Rightarrow> figure \<times> frame list \<Rightarrow> (error + figure) \<times> frame list" where
  "country_step dfa country st =
     (case st of (fig, h) \<Rightarrow>
      case deref h dfa of
        None \<Rightarrow> (Inl NameError, h)
      | Some d \<Rightarrow>
          let (a1, h1) = alloc (boolean_index d (map (\<lambda>r. location r = country) (rows d))) h;
              (country_df, h2) = alloc (sort_values (h1 ! a1)) h1;
              h3 = set_delta country_df (diff (map metric (rows (h2 ! country_df)))) h2;
              fig1 = add_trace (line_trace country (map date (rows (h3 ! country_df)))
                                  (map metric (rows (h3 ! country_df)))) fig
          in case delta (h3 ! country_df) of
               None \<Rightarrow> (Inl KeyError, h3)
             | Some ds \<Rightarrow>
                 let (a3, h4) = alloc (boolean_index (h3 ! country_df) (map gt_zero ds)) h3;
                     last_increase_idx = last_valid_index (h4 ! a3)
                 in case last_increase_idx of
                      None \<Rightarrow> (Inr fig1, h4)
                    | Some i \<Rightarrow>
                        if i = 0 then (Inr fig1, h4)
                        else
                          (case loc (h4 ! country_df) i of
                             Inl e \<Rightarrow> (Inl e, h4)
                           | Inr r \<Rightarrow>
                               (Inr (add_annotation (stop_annotation country (date r) (metric r))
                                      (add_trace (marker_trace (date r) (metric r)) fig1)),
                                h4)))"

fun countries_loop ::
  "nat \<Rightarrow> string list \<Rightarrow> figure \<times> frame list \<Rightarrow> (error + figure) \<times> frame list" where
  "countries_loop dfa [] (fig, h) = (Inr fig, h)"
| "countries_loop dfa (country # rest) (fig, h) =
     (case country_step dfa country (fig, h) of
        (Inl e, h') \<Rightarrow> (Inl e, h')
      | (Inr fig', h') \<Rightarrow> countries_loop dfa rest (fig', h'))"

text \<open>
  The callback. Its argument is what the dropdown holds: \<open>None\<close> or a list of names.
  Lines 81-82 format the least and the greatest date of \<open>df\<close>; on a frame without rows
  both are NaT, whose \<open>strftime\<close> raises \<open>ValueError\<close>.
\<close>

definition update_chart :: "string list option \<Rightarrow> pstate \<Rightarrow> (error + figure) \<times> pstate" where
  "update_chart selected_countries s =
     (case selected_countries of
        None \<Rightarrow> (Inr Figure, s)
      | Some [] \<Rightarrow> (Inr Figure, s)
      | Some (c # cs) \<Rightarrow>
          (case deref (heap s) (df s) of
             None \<Rightarrow> (Inl NameError, s)
           | Some d \<Rightarrow>
               (case (date_min d, date_max d) of
                  (Some mn, Some mx) \<Rightarrow>
                    (case countries_loop (df s) (c # cs) (Figure, heap s) of
                       (Inl e, h) \<Rightarrow> (Inl e, s\<lparr>heap := h\<rparr>)
                     | (Inr fig, h) \<Rightarrow>
                         (Inr (update_layout (strftime mn) (strftime mx) fig), s\<lparr>heap := h\<rparr>))
                | _ \<Rightarrow> (Inl ValueError, s))))"

text \<open>The running server: one call of the callback for each value the dropdown takes.\<close>

fun serve :: "string list option list \<Rightarrow> pstate \<Rightarrow> pstate" where
  "serve [] s = s"
| "serve (sel # sels) s = serve sels (snd (update_chart sel s))"

section \<open>Notions the statements use\<close>

text \<open>The frame \<open>df\<close> is bound to after loading.\<close>

definition dataset :: "csv \<Rightarrow> frame" where
  "dataset c = boolean_index (read_csv c) (map (\<lambda>r. metric r \<noteq> None) (rows (read_csv c)))"

text \<open>A country's rows in date order, and those of them at which the metric increased.\<close>

definition country_rows :: "frame \<Rightarrow> string \<Rightarrow> row list" where
  "country_rows d country = sort_key date (filter (\<lambda>r. location r = country) (rows d))"

definition increases :: "row list \<Rightarrow> row list" where
  "increases rs = keep (map gt_zero (diff (map metric rs))) rs"

text \<open>The last row, in date order, at which the metric increased.\<close>

definition last_increase :: "row list \<Rightarrow> row option" where
  "last_increase rs = (case increases rs of [] \<Rightarrow> None | _ \<Rightarrow> Some (last (increases rs)))"

text \<open>The row a country's marker and annotation are drawn at, when they are drawn.\<close>

definition marked_row :: "frame \<Rightarrow> string \<Rightarrow> row option" where
  "marked_row d country =
     (case last_increase (country_rows d country) of
        None \<Rightarrow> None
      | Some r \<Rightarrow> if idx r = 0 then None else Some r)"

text \<open>What one country adds to the figure.\<close>

definition country_traces :: "frame \<Rightarrow> string \<Rightarrow> scatter list" where
  "country_traces d country =
     line_trace country (map date (country_rows d country)) (map metric (country_rows d country))
       # (case marked_row d country of
            None \<Rightarrow> []
          | Some r \<Rightarrow> [marker_trace (date r) (metric r)])"

definition country_annotations :: "frame \<Rightarrow> string \<Rightarrow> annotation list" where
  "country_annotations d country =
     (case marked_row d country of
        None \<Rightarrow> []
      | Some r \<Rightarrow> [stop_annotation country (date r) (metric r)])"

definition is_line :: "scatter \<Rightarrow> bool" where
  "is_line t = (trace_mode t = ''lines'')"

text \<open>A frame as \<open>read_csv\<close> and boolean indexing make them: distinct labels, no \<open>delta\<close>.\<close>

definition plain :: "frame \<Rightarrow> bool" where
  "plain d = (distinct (map idx (rows d)) \<and> delta d = None)"

section \<open>Example inputs\<close>

text \<open>
  A file with two countries, one line of which has no metric; country A has the shorter
  history.
\<close>

definition two_countries :: csv where
  "two_countries =
     [((2020, 1, 1), ''B'', Some 1), ((2020, 3, 1), ''A'', Some 5),
      ((2020, 3, 2), ''A'', None), ((2021, 6, 30), ''B'', Some 9)]"

text \<open>A file whose first line is the later of a country's two dates.\<close>

definition later_date_first :: csv where
  "later_date_first = [((2020, 1, 2), ''C'', Some 15), ((2020, 1, 1), ''C'', Some 10)]"

text \<open>The values 10, 10, 15, 15, 12 on five consecutive dates, in date order.\<close>

definition five_days :: csv where
  "five_days =
     [((2020, 1, 1), ''C'', Some 10), ((2020, 1, 2), ''C'', Some 10),
      ((2020, 1, 3), ''C'', Some 15), ((2020, 1, 4), ''C'', Some 15),
      ((2020, 1, 5), ''C'', Some 12)]"

text \<open>A file of one line, and the same line without its metric.\<close>

definition one_line :: csv where
  "one_line = [((2020, 1, 1), ''A'', Some 1)]"

definition one_line_no_metric :: csv where
  "one_line_no_metric = [((2020, 1, 1), ''A'', None)]"

text \<open>
  Worlds of the fetcher: nothing on disk; the disk after a first download of the day; a
  ledger of two days; a ledger that names today while the cache file is not there. And
  a network that answers 200 with a body, and one that is down.
\<close>

definition fresh_world :: world where
  "fresh_world = \<lparr>files = Map.empty, requests = 0, stdout = []\<rparr>"

definition downloaded_world :: world where
  "downloaded_world =
     \<lparr>files = [filepath ''2026-11-04'' \<mapsto> ''date,location'',
               LOG_FILE \<mapsto> ''2026-11-04 - Downloaded'' @ [CHR 0x0A]],
      requests = 1, stdout = [''[INFO] Downloading COVID dataset...'']\<rparr>"

definition two_day_ledger_world :: world where
  "two_day_ledger_world =
     \<lparr>files = [LOG_FILE \<mapsto> ''2026-11-03 - Downloaded'' @ [CHR 0x0A]
                            @ ''2026-11-04 - Downloaded'' @ [CHR 0x0A]],
      requests = 0, stdout = []\<rparr>"

definition ledger_only_world :: world where
  "ledger_only_world =
     \<lparr>files = [LOG_FILE \<mapsto> ''2026-11-04 - Downloaded'' @ [CHR 0x0A]],
      requests = 0, stdout = []\<rparr>"

definition net_ok :: transport where
  "net_ok = (\<lambda>url. Some \<lparr>status_code = 200, content = ''date,location''\<rparr>)"

definition net_down :: transport where
  "net_down = (\<lambda>url. None)"

section \<open>Properties of the fetcher\<close>

lemma str_contains_sublist: "str_contains needle hay \<longleftrightarrow> sublist needle hay"
  by (induction hay) (simp_all add: sublist_Cons_right)

lemma str_contains_append: "str_contains n (pre @ n @ post)"
  by (simp add: str_contains_sublist)

lemma filepath_neq_LOG_FILE: "filepath today \<noteq> LOG_FILE"
  by (simp add: filepath_def LOG_FILE_def DATA_FOLDER_def)

lemma already_logged_after_append:
  "already_logged today (append_file LOG_FILE (ledger_line today) w)"
proof -
  have "str_contains today (old @ today @ ('' - Downloaded'' @ [CHR 0x0A]))" for old
    by (rule str_contains_append)
  then show ?thesis
    by (simp add: already_logged_def append_file_def ledger_line_def)
qed

lemma download_if_needed_fast:
  "already_logged today w \<Longrightarrow> download_if_needed today net w = (Inr (), w)"
  by (simp add: download_if_needed_def)

lemma download_if_needed_logged:
  assumes "download_if_needed today net w = (Inr (), w')"
  shows "already_logged today w'"
proof (cases "already_logged today w")
  case True
  with assms show ?thesis by (simp add: download_if_needed_def)
next
  case False
  with assms show ?thesis
    by (auto simp: download_if_needed_def Let_def already_logged_after_append
             split: option.splits sum.splits)
qed

lemma download_if_needed_requests:
  "requests (snd (download_if_needed today net w)) \<le> requests w + 1"
  by (simp add: download_if_needed_def Let_def append_file_def write_file_def
           split: option.splits sum.splits)

section \<open>Frames, the loop body and the loop\<close>

lemma keep_map: "keep (map P xs) xs = filter P xs"
  by (induction xs) (simp_all add: keep_def)

lemma set_keep: "set (keep bs xs) \<subseteq> set xs"
  by (auto simp: keep_def dest: set_zip_rightD)

lemma rows_boolean_index: "rows (boolean_index d (map P (rows d))) = filter P (rows d)"
  by (simp add: boolean_index_def keep_map)

lemma find_idx:
  "distinct (map idx rs) \<Longrightarrow> r \<in> set rs \<Longrightarrow> find (\<lambda>x. idx x = idx r) rs = Some r"
  by (induction rs) (auto simp: rev_image_eqI)

lemma distinct_country_rows:
  "distinct (map idx (rows d)) \<Longrightarrow> distinct (map idx (country_rows d c))"
  unfolding country_rows_def
  by (simp add: distinct_map distinct_map_filter inj_on_def)

lemma last_increase_in:
  "last_increase rs = Some r \<Longrightarrow> r \<in> set rs"
proof -
  assume "last_increase rs = Some r"
  then have "increases rs \<noteq> []" and "r = last (increases rs)"
    by (auto simp: last_increase_def split: list.splits)
  then have "r \<in> set (increases rs)" by simp
  then show ?thesis
    using set_keep [of "map gt_zero (diff (map metric rs))" rs] by (auto simp: increases_def)
qed

lemma country_step_unfold:
  assumes "a < length h"
  shows "country_step a c (fig, h) =
     (let d = h ! a;
          f1 = boolean_index d (map (\<lambda>r. location r = c) (rows d));
          f2 = sort_values f1;
          ds = diff (map metric (rows f2));
          cdf = f2\<lparr>delta := Some ds\<rparr>;
          f3 = boolean_index cdf (map gt_zero ds);
          h4 = h @ [f1, cdf, f3];
          fig1 = add_trace (line_trace c (map date (rows f2)) (map metric (rows f2))) fig
      in case last_valid_index f3 of
           None \<Rightarrow> (Inr fig1, h4)
         | Some i \<Rightarrow>
             if i = 0 then (Inr fig1, h4)
             else (case loc cdf i of
                     Inl e \<Rightarrow> (Inl e, h4)
                   | Inr r \<Rightarrow>
                       (Inr (add_annotation (stop_annotation c (date r) (metric r))
                              (add_trace (marker_trace (date r) (metric r)) fig1)), h4)))"
  using assms
  by (simp add: country_step_def deref_def alloc_def set_delta_def Let_def nth_append
        cong: option.case_cong sum.case_cong if_cong)

lemma country_step_eq:
  assumes "a < length h" and "plain (h ! a)"
  shows "\<exists>fs. country_step a c (fig, h) =
           (Inr (fig\<lparr>data := data fig @ country_traces (h ! a) c,
                     layout := (layout fig)\<lparr>annotations :=
                        annotations (layout fig) @ country_annotations (h ! a) c\<rparr>\<rparr>),
            h @ fs)"
proof -
  let ?d = "h ! a"
  let ?rs = "country_rows ?d c"
  let ?f1 = "boolean_index ?d (map (\<lambda>r. location r = c) (rows ?d))"
  let ?ds = "diff (map metric ?rs)"
  let ?cdf = "\<lparr>rows = ?rs, delta = Some ?ds\<rparr>"
  let ?f3 = "boolean_index ?cdf (map gt_zero ?ds)"
  have f1: "?f1 = \<lparr>rows = filter (\<lambda>r. location r = c) (rows ?d), delta = None\<rparr>"
    using assms(2) by (simp add: boolean_index_def keep_map plain_def)
  have s1: "sort_values ?f1 = \<lparr>rows = ?rs, delta = None\<rparr>"
    by (simp add: f1 sort_values_def country_rows_def)
  have lvi: "last_valid_index ?f3 = map_option idx (last_increase ?rs)"
    by (simp add: boolean_index_def increases_def last_valid_index_def last_increase_def
          split: list.splits)
  have fnd: "loc ?cdf (idx r) = Inr r" if "last_increase ?rs = Some r" for r
  proof -
    have "r \<in> set ?rs" using that by (rule last_increase_in)
    moreover have "distinct (map idx ?rs)"
      using assms(2) by (simp add: plain_def distinct_country_rows)
    ultimately show ?thesis by (simp add: loc_def find_idx)
  qed
  show ?thesis
  proof (cases "marked_row ?d c")
    case None
    then show ?thesis
      by (simp add: country_step_unfold [OF assms(1)] s1 lvi country_traces_def
            country_annotations_def add_trace_def marked_row_def Let_def
            split: option.splits if_splits)
  next
    case (Some r)
    then have "last_increase ?rs = Some r" and "idx r \<noteq> 0"
      by (auto simp: marked_row_def split: option.splits if_splits)
    with Some fnd [of r] show ?thesis
      by (simp add: country_step_unfold [OF assms(1)] s1 lvi country_traces_def
            country_annotations_def add_trace_def add_annotation_def Let_def)
  qed
qed

lemma countries_loop_eq:
  assumes "a < length h" and "plain (h ! a)"
  shows "\<exists>fs. countries_loop a sel (fig, h) =
           (Inr (fig\<lparr>data := data fig @ concat (map (country_traces (h ! a)) sel),
                     layout := (layout fig)\<lparr>annotations :=
                        annotations (layout fig)
                          @ concat (map (country_annotations (h ! a)) sel)\<rparr>\<rparr>),
            h @ fs)"
  using assms
proof (induction sel arbitrary: fig h)
  case Nil
  then show ?case by simp
next
  case (Cons c sel)
  let ?fig = "fig\<lparr>data := data fig @ country_traces (h ! a) c,
                   layout := (layout fig)\<lparr>annotations :=
                      annotations (layout fig) @ country_annotations (h ! a) c\<rparr>\<rparr>"
  from country_step_eq [OF Cons.prems, of c fig]
  obtain fs where step: "country_step a c (fig, h) = (Inr ?fig, h @ fs)" by blast
  have "a < length (h @ fs)" and "plain ((h @ fs) ! a)"
    using Cons.prems by (simp_all add: nth_append)
  from Cons.IH [OF this, of ?fig]
  obtain fs' where "countries_loop a sel (?fig, h @ fs) =
      (Inr (?fig\<lparr>data := data ?fig @ concat (map (country_traces ((h @ fs) ! a)) sel),
                 layout := (layout ?fig)\<lparr>annotations :=
                    annotations (layout ?fig)
                      @ concat (map (country_annotations ((h @ fs) ! a)) sel)\<rparr>\<rparr>),
       (h @ fs) @ fs')" by blast
  with step Cons.prems(1) show ?case
    by (simp add: nth_append)
qed

lemma country_step_heap: "\<exists>fs. snd (country_step a c (fig, h)) = h @ fs"
proof (cases "a < length h")
  case True
  then show ?thesis
    by (simp add: country_step_unfold Let_def split: option.splits sum.splits)
next
  case False
  then show ?thesis by (simp add: country_step_def deref_def)
qed

lemma countries_loop_heap: "\<exists>fs. snd (countries_loop a sel (fig, h)) = h @ fs"
proof (induction sel arbitrary: fig h)
  case Nil
  then show ?case by simp
next
  case (Cons c sel)
  obtain r h' where step: "country_step a c (fig, h) = (r, h')"
    by (cases "country_step a c (fig, h)")
  with country_step_heap [of a c fig h] obtain fs where h': "h' = h @ fs" by auto
  show ?case
  proof (cases r)
    case (Inl e)
    with step h' show ?thesis by simp
  next
    case (Inr fig')
    from Cons.IH [of fig' h'] obtain fs' where
      "snd (countries_loop a sel (fig', h')) = h' @ fs'" by blast
    with step h' Inr show ?thesis by simp
  qed
qed

lemma update_chart_heap:
  "\<exists>fs. snd (update_chart sel s) = s\<lparr>heap := heap s @ fs\<rparr>"
proof -
  have same: "\<exists>fs. s = s\<lparr>heap := heap s @ fs\<rparr>"
    by (rule exI [of _ "[]"]) simp
  show ?thesis
  proof (cases sel)
    case None
    with same show ?thesis by (simp add: update_chart_def)
  next
    case (Some cs)
    show ?thesis
    proof (cases cs)
      case Nil
      with Some same show ?thesis by (simp add: update_chart_def)
    next
      case (Cons c cs')
      obtain r h' where loop: "countries_loop (df s) (c # cs') (Figure, heap s) = (r, h')"
        by (cases "countries_loop (df s) (c # cs') (Figure, heap s)")
      with countries_loop_heap [of "df s" "c # cs'" Figure "heap s"]
      obtain fs where "h' = heap s @ fs" by auto
      with loop Some Cons same show ?thesis
        by (cases r) (auto simp: update_chart_def split: option.splits)
    qed
  qed
qed

lemma serve_heap: "\<exists>fs. serve sels s = s\<lparr>heap := heap s @ fs\<rparr>"
proof (induction sels arbitrary: s)
  case Nil
  show ?case by (rule exI [of _ "[]"]) simp
next
  case (Cons sel sels)
  from update_chart_heap [of sel s] obtain fs where
    1: "snd (update_chart sel s) = s\<lparr>heap := heap s @ fs\<rparr>" by blast
  from Cons.IH [of "s\<lparr>heap := heap s @ fs\<rparr>"] obtain fs' where
    "serve sels (s\<lparr>heap := heap s @ fs\<rparr>) = s\<lparr>heap := heap s @ fs @ fs'\<rparr>" by auto
  with 1 show ?case by auto
qed

lemma load_eq: "load c = \<lparr>heap = [read_csv c, dataset c], df = 1\<rparr>"
  by (simp add: load_def alloc_def dataset_def Let_def)

lemma idx_read_csv: "map idx (rows (read_csv c)) = [0..<length c]"
proof -
  have "map idx (rows (read_csv c)) = map fst (zip [0..<length c] c)"
    by (simp add: read_csv_def case_prod_unfold comp_def)
  then show ?thesis by simp
qed

lemma rows_dataset:
  "rows (dataset c) = filter (\<lambda>r. metric r \<noteq> None) (rows (read_csv c))"
  by (simp add: dataset_def rows_boolean_index)

lemma plain_dataset: "plain (dataset c)"
proof -
  have "distinct (map idx (rows (read_csv c)))"
    by (simp add: idx_read_csv)
  then have "distinct (map idx (rows (dataset c)))"
    by (simp add: rows_dataset distinct_map_filter)
  moreover have "delta (dataset c) = None"
    by (simp add: dataset_def boolean_index_def read_csv_def)
  ultimately show ?thesis by (simp add: plain_def)
qed

lemma serve_load:
  "\<exists>fs. serve sels (load c) = \<lparr>heap = [read_csv c, dataset c] @ fs, df = 1\<rparr>"
  using serve_heap [of sels "load c"] by (auto simp: load_eq)

lemma date_min_eq: "rows d \<noteq> [] \<Longrightarrow> date_min d = Some (Min (date ` set (rows d)))"
  by (cases "rows d") (simp_all add: date_min_def Min.set_eq_fold [symmetric])

lemma date_max_eq: "rows d \<noteq> [] \<Longrightarrow> date_max d = Some (Max (date ` set (rows d)))"
  by (cases "rows d") (simp_all add: date_max_def Max.set_eq_fold [symmetric])

lemma update_chart_eq:
  assumes "df s < length (heap s)" and "plain (heap s ! df s)" and "rows (heap s ! df s) \<noteq> []"
    and "sel \<noteq> []"
  shows "fst (update_chart (Some sel) s) =
     Inr (update_layout (strftime (Min (date ` set (rows (heap s ! df s)))))
                        (strftime (Max (date ` set (rows (heap s ! df s)))))
            \<lparr>data = concat (map (country_traces (heap s ! df s)) sel),
             layout = default_layout\<lparr>annotations :=
                 concat (map (country_annotations (heap s ! df s)) sel)\<rparr>\<rparr>)"
proof -
  from countries_loop_eq [OF assms(1,2), of sel Figure]
  obtain fs where "countries_loop (df s) sel (Figure, heap s) =
      (Inr \<lparr>data = concat (map (country_traces (heap s ! df s)) sel),
            layout = default_layout\<lparr>annotations :=
                 concat (map (country_annotations (heap s ! df s)) sel)\<rparr>\<rparr>, heap s @ fs)"
    by (auto simp: Figure_def default_layout_def)
  with assms show ?thesis
    by (cases sel) (simp_all add: update_chart_def deref_def date_min_eq date_max_eq)
qed

lemma update_chart_loaded:
  assumes "rows (dataset c) \<noteq> []" and "sel \<noteq> []"
  shows "fst (update_chart (Some sel) (serve sels (load c))) =
     Inr (update_layout (strftime (Min (date ` set (rows (dataset c)))))
                        (strftime (Max (date ` set (rows (dataset c)))))
            \<lparr>data = concat (map (country_traces (dataset c)) sel),
             layout = default_layout\<lparr>annotations :=
                 concat (map (country_annotations (dataset c)) sel)\<rparr>\<rparr>)"
proof -
  from serve_load [of sels c] obtain fs where
    s: "serve sels (load c) = \<lparr>heap = [read_csv c, dataset c] @ fs, df = 1\<rparr>" by blast
  show ?thesis
    using update_chart_eq [of "serve sels (load c)" sel] assms
    by (simp add: s plain_dataset)
qed

section \<open>What a render returns\<close>

lemma update_chart_loaded_parts:
  assumes "rows (dataset c) \<noteq> []"
  shows "\<exists>fig. fst (update_chart (Some sel) (serve sels (load c))) = Inr fig \<and>
           data fig = concat (map (country_traces (dataset c)) sel) \<and>
           annotations (layout fig) = concat (map (country_annotations (dataset c)) sel)"
proof (cases "sel = []")
  case True
  then show ?thesis
    by (simp add: update_chart_def Figure_def default_layout_def)
next
  case False
  with assms show ?thesis
    by (simp add: update_chart_loaded update_layout_def)
qed

lemma country_rows_unknown:
  "name \<notin> location ` set (rows d) \<Longrightarrow> country_rows d name = []"
proof -
  assume "name \<notin> location ` set (rows d)"
  then have "filter (\<lambda>r. location r = name) (rows d) = []"
    by (auto simp: filter_empty_conv)
  then show ?thesis by (simp add: country_rows_def)
qed

lemma update_chart_unbound:
  "\<not> df s < length (heap s) \<Longrightarrow> snd (update_chart sel s) = s"
  by (simp add: update_chart_def deref_def split: option.splits list.splits)

lemma marked_row_unknown:
  "name \<notin> location ` set (rows d) \<Longrightarrow> marked_row d name = None"
  by (simp add: marked_row_def last_increase_def increases_def keep_def country_rows_unknown)

lemma line_traces_of_country:
  "filter is_line (country_traces d c) =
     [line_trace c (map date (country_rows d c)) (map metric (country_rows d c))]"
  by (simp add: country_traces_def is_line_def line_trace_def marker_trace_def
        split: option.splits)

lemma line_trace_names:
  "map trace_name (filter is_line (concat (map (country_traces d) sel))) = map Some sel"
  by (induction sel) (simp_all add: line_traces_of_country line_trace_def)

lemma update_chart_no_rows:
  assumes "rows (dataset c) = []" and "sel \<noteq> []"
  shows "fst (update_chart (Some sel) (serve sels (load c))) = Inl ValueError"
proof -
  from serve_load [of sels c] obtain fs where
    "serve sels (load c) = \<lparr>heap = [read_csv c, dataset c] @ fs, df = 1\<rparr>" by blast
  with assms show ?thesis
    by (cases sel) (simp_all add: update_chart_def deref_def date_min_def date_max_def)
qed

text \<open>Facts for evaluating the renderer on a given file.\<close>

lemma Min_image_fold: "Min (f ` set (x # xs)) = fold min (map f xs) (f x)"
  using Min.set_eq_fold [of "f x" "map f xs"] by simp

lemma Max_image_fold: "Max (f ` set (x # xs)) = fold max (map f xs) (f x)"
  using Max.set_eq_fold [of "f x" "map f xs"] by simp

lemma update_chart_single:
  assumes "rows (dataset c) \<noteq> []"
  shows "fst (update_chart (Some [name]) (load c)) =
     Inr (update_layout (strftime (Min (date ` set (rows (dataset c)))))
                        (strftime (Max (date ` set (rows (dataset c)))))
            \<lparr>data = country_traces (dataset c) name,
             layout = default_layout\<lparr>annotations := country_annotations (dataset c) name\<rparr>\<rparr>)"
  using update_chart_loaded [OF assms, of "[name]" "[]"] by simp

lemmas frame_eval =
  two_countries_def later_date_first_def five_days_def one_line_def one_line_no_metric_def
  dataset_def read_csv_def boolean_index_def keep_def country_rows_def increases_def
  diff_def last_increase_def marked_row_def country_traces_def country_annotations_def
  Min_image_fold Max_image_fold digit_def month_abbr_def

lemmas figure_eval =
  update_layout_def add_trace_def add_annotation_def Figure_def default_layout_def

section \<open>The claims about the fetcher\<close>

text \<open>
  C2. A call that finds today's label in the ledger returns at once and leaves the world
  as it was: no request, no write of the cache file, no line added to the ledger. So
  after a call that completed, a second call on the same day, whatever the network would
  answer, changes nothing, and the two calls together made at most one request.
\<close>

theorem download_if_needed_once_a_day:
  "(already_logged today w \<longrightarrow> download_if_needed today net w = (Inr (), w)) \<and>
   (download_if_needed today net w = (Inr (), w') \<longrightarrow>
      download_if_needed today net' w' = (Inr (), w') \<and> requests w' \<le> requests w + 1)"
proof (intro conjI impI)
  assume "already_logged today w"
  then show "download_if_needed today net w = (Inr (), w)"
    by (rule download_if_needed_fast)
next
  assume run: "download_if_needed today net w = (Inr (), w')"
  then have "already_logged today w'" by (rule download_if_needed_logged)
  then show "download_if_needed today net' w' = (Inr (), w')"
    by (rule download_if_needed_fast)
next
  assume run: "download_if_needed today net w = (Inr (), w')"
  with download_if_needed_requests [of today net w]
  show "requests w' \<le> requests w + 1" by simp
qed

theorem download_if_needed_once_a_day_witness:
  "already_logged ''2026-11-04'' two_day_ledger_world \<and>
   download_if_needed ''2026-11-04'' net_ok two_day_ledger_world = (Inr (), two_day_ledger_world) \<and>
   download_if_needed ''2026-11-04'' net_ok fresh_world = (Inr (), downloaded_world) \<and>
   download_if_needed ''2026-11-04'' net_down downloaded_world = (Inr (), downloaded_world) \<and>
   requests downloaded_world \<le> requests fresh_world + 1"
proof -
  have logged: "already_logged ''2026-11-04'' two_day_ledger_world"
    by (simp add: already_logged_def two_day_ledger_world_def)
  have first: "download_if_needed ''2026-11-04'' net_ok fresh_world = (Inr (), downloaded_world)"
    by (simp add: download_if_needed_def already_logged_def raise_for_status_def
          append_file_def write_file_def ledger_line_def filepath_neq_LOG_FILE
          filepath_neq_LOG_FILE [THEN not_sym] fresh_world_def downloaded_world_def net_ok_def)
  from logged
    download_if_needed_once_a_day [of "''2026-11-04''" two_day_ledger_world net_ok]
  have fast: "download_if_needed ''2026-11-04'' net_ok two_day_ledger_world =
      (Inr (), two_day_ledger_world)"
    by blast
  from first
    download_if_needed_once_a_day [of "''2026-11-04''" fresh_world net_ok downloaded_world net_down]
  have "download_if_needed ''2026-11-04'' net_down downloaded_world = (Inr (), downloaded_world)"
    and "requests downloaded_world \<le> requests fresh_world + 1"
    by blast+
  with logged fast first show ?thesis by blast
qed

text \<open>
  C8, as the claim states it, fails: with today's label in the ledger and no cache file
  for today, the call returns normally, changes nothing, and the file is still missing.
\<close>

theorem fast_path_without_cache_file:
  "download_if_needed ''2026-11-04'' net_ok ledger_only_world = (Inr (), ledger_only_world) \<and>
   files ledger_only_world (filepath ''2026-11-04'') = None"
  by (simp add: download_if_needed_def already_logged_def ledger_only_world_def
        filepath_neq_LOG_FILE filepath_neq_LOG_FILE [THEN not_sym])

text \<open>
  C8, amended. A call that completes after downloading leaves the cache file for today
  in place, holding the body of the response. A call that completes on the fast path
  leaves the world as it was, so the cache file is there exactly when it was there before.
\<close>

theorem cache_file_after_download:
  assumes "download_if_needed today net w = (Inr (), w')"
  shows "(\<not> already_logged today w \<longrightarrow>
            (\<exists>r. net DATA_URL = Some r \<and> files w' (filepath today) = Some (content r))) \<and>
         (already_logged today w \<longrightarrow> w' = w)"
  using assms
  by (auto simp: download_if_needed_def Let_def append_file_def write_file_def
        filepath_neq_LOG_FILE split: option.splits sum.splits)

theorem cache_file_after_download_witness:
  "download_if_needed ''2026-11-04'' net_ok fresh_world = (Inr (), downloaded_world) \<and>
   \<not> already_logged ''2026-11-04'' fresh_world \<and>
   files downloaded_world (filepath ''2026-11-04'') = Some ''date,location'' \<and>
   download_if_needed ''2026-11-04'' net_ok two_day_ledger_world = (Inr (), two_day_ledger_world) \<and>
   already_logged ''2026-11-04'' two_day_ledger_world"
proof -
  have run: "download_if_needed ''2026-11-04'' net_ok fresh_world = (Inr (), downloaded_world)"
    by (simp add: download_if_needed_def already_logged_def raise_for_status_def
          append_file_def write_file_def ledger_line_def filepath_neq_LOG_FILE
          filepath_neq_LOG_FILE [THEN not_sym] fresh_world_def downloaded_world_def net_ok_def)
  have fresh: "\<not> already_logged ''2026-11-04'' fresh_world"
    by (simp add: already_logged_def fresh_world_def)
  have ok: "net_ok DATA_URL = Some \<lparr>status_code = 200, content = ''date,location''\<rparr>"
    by (simp add: net_ok_def)
  from cache_file_after_download [OF run] fresh ok
  have cached: "files downloaded_world (filepath ''2026-11-04'') = Some ''date,location''"
    by auto
  have logged: "already_logged ''2026-11-04'' two_day_ledger_world"
    by (simp add: already_logged_def two_day_ledger_world_def)
  then have fast: "download_if_needed ''2026-11-04'' net_ok two_day_ledger_world =
      (Inr (), two_day_ledger_world)"
    by (simp add: download_if_needed_def)
  from cache_file_after_download [OF fast] logged
  have "two_day_ledger_world = two_day_ledger_world" by blast
  with run fresh cached fast logged show ?thesis by blast
qed

section \<open>The claims about the renderer\<close>

text \<open>
  C3. With an empty selection the callback returns \<open>go.Figure()\<close> as it is, in any
  state (whatever \<open>df\<close> holds): no trace, no annotation, the default layout, and no
  error.
\<close>

theorem update_chart_empty_selection:
  "update_chart (Some []) s = (Inr Figure, s) \<and> data Figure = [] \<and>
   annotations (layout Figure) = [] \<and> layout Figure = default_layout"
  by (simp add: update_chart_def Figure_def default_layout_def)

text \<open>
  C10. With no selection at all (\<open>None\<close>, the value of a cleared dropdown) the callback
  returns the empty figure too, as it does for the empty list, and raises nothing.
\<close>

theorem update_chart_no_selection:
  "update_chart None s = (Inr Figure, s) \<and> update_chart None s = update_chart (Some []) s"
  by (simp add: update_chart_def)

text \<open>
  C9. A call of the callback, on any state and with any selection, leaves \<open>df\<close> bound to
  the same frame and every frame that existed before the call as it was; the frame \<open>df\<close>
  refers to reads the same before and after. The \<open>delta\<close> column goes to a frame the call
  itself made.
\<close>

theorem update_chart_leaves_df:
  "df (snd (update_chart sel s)) = df s \<and>
   take (length (heap s)) (heap (snd (update_chart sel s))) = heap s \<and>
   deref (heap (snd (update_chart sel s))) (df s) = deref (heap s) (df s)"
proof (cases "df s < length (heap s)")
  case True
  from update_chart_heap [of sel s] obtain fs where
    "snd (update_chart sel s) = s\<lparr>heap := heap s @ fs\<rparr>" by blast
  with True show ?thesis by (simp add: deref_def nth_append)
next
  case False
  then show ?thesis by (simp add: update_chart_unbound)
qed

text \<open>
  One call on the file \<open>later_date_first\<close>: the two frames of the loader are as they
  were, and the call has made three frames, of which the second, the sorted copy, got the
  \<open>delta\<close> column.
\<close>

lemma working_copy_example:
  "heap (snd (update_chart (Some [''C'']) (load later_date_first))) =
     [read_csv later_date_first,
      dataset later_date_first,
      \<lparr>rows = [\<lparr>idx = 0, date = (2020, 1, 2), location = ''C'', metric = Some 15\<rparr>,
               \<lparr>idx = 1, date = (2020, 1, 1), location = ''C'', metric = Some 10\<rparr>],
       delta = None\<rparr>,
      \<lparr>rows = [\<lparr>idx = 1, date = (2020, 1, 1), location = ''C'', metric = Some 10\<rparr>,
               \<lparr>idx = 0, date = (2020, 1, 2), location = ''C'', metric = Some 15\<rparr>],
       delta = Some [None, Some 5]\<rparr>,
      \<lparr>rows = [\<lparr>idx = 0, date = (2020, 1, 2), location = ''C'', metric = Some 15\<rparr>],
       delta = Some [Some 5]\<rparr>]"
  by (simp add: update_chart_def load_eq deref_def date_min_def date_max_def
        country_step_unfold sort_values_def last_valid_index_def loc_def frame_eval Let_def)

text \<open>
  C4. The frame \<open>df\<close> is bound to after loading is the file's frame without the rows whose
  metric is missing; no row of it has a missing metric, and \<open>df\<close> still refers to that
  very frame after any number of calls of the callback.
\<close>

theorem loaded_metric_never_missing:
  "deref (heap (load c)) (df (load c)) = Some (dataset c) \<and>
   deref (heap (serve sels (load c))) (df (serve sels (load c))) = Some (dataset c) \<and>
   (\<forall>r \<in> set (rows (dataset c)). metric r \<noteq> None)"
proof -
  from serve_load [of sels c] obtain fs where
    "serve sels (load c) = \<lparr>heap = [read_csv c, dataset c] @ fs, df = 1\<rparr>" by blast
  then show ?thesis by (simp add: load_eq deref_def rows_dataset)
qed

theorem loaded_metric_never_missing_witness:
  "rows (dataset two_countries) =
     [\<lparr>idx = 0, date = (2020, 1, 1), location = ''B'', metric = Some 1\<rparr>,
      \<lparr>idx = 1, date = (2020, 3, 1), location = ''A'', metric = Some 5\<rparr>,
      \<lparr>idx = 3, date = (2021, 6, 30), location = ''B'', metric = Some 9\<rparr>] \<and>
   deref (heap (serve [Some [''A'', ''B''], None] (load two_countries)))
         (df (serve [Some [''A'', ''B''], None] (load two_countries))) = Some (dataset two_countries) \<and>
   list_all (\<lambda>r. metric r \<noteq> None) (rows (dataset two_countries))"
proof -
  have "rows (dataset two_countries) =
     [\<lparr>idx = 0, date = (2020, 1, 1), location = ''B'', metric = Some 1\<rparr>,
      \<lparr>idx = 1, date = (2020, 3, 1), location = ''A'', metric = Some 5\<rparr>,
      \<lparr>idx = 3, date = (2021, 6, 30), location = ''B'', metric = Some 9\<rparr>]"
    by (simp add: frame_eval)
  with loaded_metric_never_missing [of two_countries "[Some [''A'', ''B''], None]"]
  show ?thesis unfolding list_all_iff by blast
qed

text \<open>
  C5. On a loaded dataset with at least one row, for every non-empty selection and at
  any moment of the server's life, the title of the chart reads
  \<open>Total COVID-19 Cases (\<close>, the least date of the whole dataset as \<open>%b %d, %Y\<close>, a dash
  between two spaces, the greatest date of the whole dataset, and \<open>)\<close>, whichever
  countries are selected. In the example only country A is selected, whose single row
  is of March 2020, and the title still runs from January 2020 to June 2021.
\<close>

theorem title_spans_whole_dataset:
  assumes "rows (dataset c) \<noteq> []" and "sel \<noteq> []"
  shows "\<exists>fig. fst (update_chart (Some sel) (serve sels (load c))) = Inr fig \<and>
           title (layout fig) =
             Some (''Total COVID-19 Cases (''
                   @ strftime (Min (date ` set (rows (dataset c))))
                   @ [CHR 0x20, CHR 0xE2, CHR 0x80, CHR 0x93, CHR 0x20]
                   @ strftime (Max (date ` set (rows (dataset c))))
                   @ '')'')"
  using assms by (simp add: update_chart_loaded update_layout_def chart_title_def)

theorem title_spans_whole_dataset_witness:
  "rows (dataset two_countries) \<noteq> [] \<and> [''A''] \<noteq> [] \<and>
   Min (date ` set (rows (dataset two_countries))) = (2020, 1, 1) \<and>
   Max (date ` set (rows (dataset two_countries))) = (2021, 6, 30) \<and>
   map date (country_rows (dataset two_countries) ''A'') = [(2020, 3, 1)] \<and>
   (\<exists>fig. fst (update_chart (Some [''A'']) (serve [Some [''B'']] (load two_countries))) = Inr fig \<and>
      title (layout fig) =
        Some (''Total COVID-19 Cases (Jan 01, 2020''
              @ [CHR 0x20, CHR 0xE2, CHR 0x80, CHR 0x93, CHR 0x20] @ ''Jun 30, 2021)''))"
proof -
  have ne: "rows (dataset two_countries) \<noteq> []"
    by (simp add: frame_eval)
  have mn: "Min (date ` set (rows (dataset two_countries))) = (2020, 1, 1)"
    by (simp add: frame_eval)
  have mx: "Max (date ` set (rows (dataset two_countries))) = (2021, 6, 30)"
    by (simp add: frame_eval)
  have a: "map date (country_rows (dataset two_countries) ''A'') = [(2020, 3, 1)]"
    by (simp add: frame_eval)
  have s1: "strftime (2020, 1, 1) = ''Jan 01, 2020''"
    by (simp add: digit_def month_abbr_def)
  have s2: "strftime (2021, 6, 30) = ''Jun 30, 2021''"
    by (simp add: digit_def month_abbr_def)
  from title_spans_whole_dataset [OF ne, of "[''A'']" "[Some [''B'']]"]
  have "\<exists>fig. fst (update_chart (Some [''A'']) (serve [Some [''B'']] (load two_countries))) = Inr fig \<and>
      title (layout fig) =
        Some (''Total COVID-19 Cases (Jan 01, 2020''
              @ [CHR 0x20, CHR 0xE2, CHR 0x80, CHR 0x93, CHR 0x20] @ ''Jun 30, 2021)'')"
    unfolding mn mx s1 s2 by simp
  with ne mn mx a show ?thesis by blast
qed

text \<open>
  C6. Whenever a chart is rendered, its line traces carry the names of the selection, in
  the order of the selection; and on a loaded dataset with at least one row a chart is
  rendered for every selection, at any moment of the server's life.
\<close>

theorem line_traces_in_selection_order:
  "(\<forall>fig. fst (update_chart (Some sel) (serve sels (load c))) = Inr fig \<longrightarrow>
      map trace_name (filter is_line (data fig)) = map Some sel) \<and>
   (rows (dataset c) \<noteq> [] \<longrightarrow>
      (\<exists>fig. fst (update_chart (Some sel) (serve sels (load c))) = Inr fig))"
proof (cases "rows (dataset c) = []")
  case False
  from update_chart_loaded_parts [OF False, of sel sels] obtain fig where
    "fst (update_chart (Some sel) (serve sels (load c))) = Inr fig"
    "data fig = concat (map (country_traces (dataset c)) sel)" by blast
  then show ?thesis by (simp add: line_trace_names)
next
  case True
  show ?thesis
  proof (cases "sel = []")
    case True
    then show ?thesis
      using \<open>rows (dataset c) = []\<close> by (simp add: update_chart_def Figure_def)
  next
    case False
    with True show ?thesis by (simp add: update_chart_no_rows)
  qed
qed

theorem line_traces_in_selection_order_witness:
  "rows (dataset two_countries) \<noteq> [] \<and>
   (\<exists>fig. fst (update_chart (Some [''B'', ''A'']) (serve [] (load two_countries))) = Inr fig \<and>
      map trace_name (filter is_line (data fig)) = [Some ''B'', Some ''A''])"
proof -
  have ne: "rows (dataset two_countries) \<noteq> []"
    by (simp add: frame_eval)
  from line_traces_in_selection_order [of "[''B'', ''A'']" "[]" two_countries] ne
  obtain fig where
    "fst (update_chart (Some [''B'', ''A'']) (serve [] (load two_countries))) = Inr fig"
    "map trace_name (filter is_line (data fig)) = map Some [''B'', ''A'']"
    by blast
  with ne show ?thesis by auto
qed

text \<open>
  C7, as the claim states it, fails: a name that no row has still gets a trace, a line
  without points that carries the name; and on a dataset without rows the render raises
  \<open>ValueError\<close>, since the least date is NaT.
\<close>

theorem unknown_country_counterexample:
  "''Z'' \<notin> location ` set (rows (dataset one_line)) \<and>
   fst (update_chart (Some [''Z'']) (load one_line)) =
     Inr (update_layout ''Jan 01, 2020'' ''Jan 01, 2020'' (add_trace (line_trace ''Z'' [] []) Figure)) \<and>
   ''Z'' \<notin> location ` set (rows (dataset one_line_no_metric)) \<and>
   fst (update_chart (Some [''Z'']) (load one_line_no_metric)) = Inl ValueError"
proof -
  have ne: "rows (dataset one_line) \<noteq> []"
    by (simp add: frame_eval)
  have 1: "''Z'' \<notin> location ` set (rows (dataset one_line))"
    by (simp add: frame_eval)
  have 2: "fst (update_chart (Some [''Z'']) (load one_line)) =
     Inr (update_layout ''Jan 01, 2020'' ''Jan 01, 2020'' (add_trace (line_trace ''Z'' [] []) Figure))"
    unfolding update_chart_single [OF ne] by (simp add: frame_eval figure_eval)
  have 3: "''Z'' \<notin> location ` set (rows (dataset one_line_no_metric))"
    by (simp add: frame_eval)
  have 4: "fst (update_chart (Some [''Z'']) (load one_line_no_metric)) = Inl ValueError"
    by (simp add: update_chart_def load_eq deref_def date_min_def date_max_def frame_eval)
  from 1 2 3 4 show ?thesis by blast
qed

text \<open>
  C7, amended. On a loaded dataset with at least one row, a selection that holds a name no
  row has renders without error, and the name adds one line trace without points,
  labelled with it, between what the names before it and the names after it add; it adds
  no marker and no annotation.
\<close>

theorem unknown_country_empty_trace:
  assumes "rows (dataset c) \<noteq> []" and "name \<notin> location ` set (rows (dataset c))"
  shows "\<exists>fig figp figq.
           fst (update_chart (Some (pre @ name # post)) (serve sels (load c))) = Inr fig \<and>
           fst (update_chart (Some pre) (serve sels (load c))) = Inr figp \<and>
           fst (update_chart (Some post) (serve sels (load c))) = Inr figq \<and>
           data fig = data figp @ [line_trace name [] []] @ data figq \<and>
           annotations (layout fig) = annotations (layout figp) @ annotations (layout figq)"
proof -
  from update_chart_loaded_parts [OF assms(1), of "pre @ name # post" sels] obtain fig where
    fig: "fst (update_chart (Some (pre @ name # post)) (serve sels (load c))) = Inr fig"
      "data fig = concat (map (country_traces (dataset c)) (pre @ name # post))"
      "annotations (layout fig) = concat (map (country_annotations (dataset c)) (pre @ name # post))"
    by blast
  from update_chart_loaded_parts [OF assms(1), of pre sels] obtain figp where
    figp: "fst (update_chart (Some pre) (serve sels (load c))) = Inr figp"
      "data figp = concat (map (country_traces (dataset c)) pre)"
      "annotations (layout figp) = concat (map (country_annotations (dataset c)) pre)"
    by blast
  from update_chart_loaded_parts [OF assms(1), of post sels] obtain figq where
    figq: "fst (update_chart (Some post) (serve sels (load c))) = Inr figq"
      "data figq = concat (map (country_traces (dataset c)) post)"
      "annotations (layout figq) = concat (map (country_annotations (dataset c)) post)"
    by blast
  have "country_traces (dataset c) name = [line_trace name [] []]"
    and "country_annotations (dataset c) name = []"
    using assms(2)
    by (simp_all add: country_traces_def country_annotations_def marked_row_unknown
          country_rows_unknown)
  with fig figp figq show ?thesis by simp
qed

theorem unknown_country_empty_trace_witness:
  "rows (dataset two_countries) \<noteq> [] \<and> ''Z'' \<notin> location ` set (rows (dataset two_countries)) \<and>
   (\<exists>fig figp figq.
      fst (update_chart (Some ([''A''] @ ''Z'' # [''B''])) (serve [] (load two_countries))) = Inr fig \<and>
      fst (update_chart (Some [''A'']) (serve [] (load two_countries))) = Inr figp \<and>
      fst (update_chart (Some [''B'']) (serve [] (load two_countries))) = Inr figq \<and>
      data fig = data figp @ [line_trace ''Z'' [] []] @ data figq \<and>
      annotations (layout fig) = annotations (layout figp) @ annotations (layout figq))"
proof -
  have ne: "rows (dataset two_countries) \<noteq> []"
    by (simp add: frame_eval)
  have un: "''Z'' \<notin> location ` set (rows (dataset two_countries))"
    by (simp add: frame_eval)
  from unknown_country_empty_trace [OF ne un, of "[''A'']" "[''B'']" "[]"] ne un
  show ?thesis by blast
qed

text \<open>
  C1. The code tests the label of the last increase for truth (line 99), and the label 0
  is false. In a file whose first line is a country's later date, the last increase is
  the row labelled 0: the metric rises from 10 to 15 there, and the chart gets the line
  trace only, without marker and without annotation.
\<close>

theorem last_increase_at_label_zero:
  "last_increase (country_rows (dataset later_date_first) ''C'') =
     Some \<lparr>idx = 0, date = (2020, 1, 2), location = ''C'', metric = Some 15\<rparr> \<and>
   fst (update_chart (Some [''C'']) (load later_date_first)) =
     Inr (update_layout ''Jan 01, 2020'' ''Jan 02, 2020''
            (add_trace (line_trace ''C'' [(2020, 1, 1), (2020, 1, 2)] [Some 10, Some 15]) Figure))"
proof -
  have li: "last_increase (country_rows (dataset later_date_first) ''C'') =
      Some \<lparr>idx = 0, date = (2020, 1, 2), location = ''C'', metric = Some 15\<rparr>"
    by (simp add: frame_eval)
  have ne: "rows (dataset later_date_first) \<noteq> []"
    by (simp add: frame_eval)
  have "fst (update_chart (Some [''C'']) (load later_date_first)) =
      Inr (update_layout ''Jan 01, 2020'' ''Jan 02, 2020''
            (add_trace (line_trace ''C'' [(2020, 1, 1), (2020, 1, 2)] [Some 10, Some 15]) Figure))"
    unfolding update_chart_single [OF ne] by (simp add: frame_eval figure_eval)
  with li show ?thesis by blast
qed

text \<open>
  The example of the specification, where the file is in date order and the last
  increase has the label 2: marker and annotation are at the third date and the value 15.
\<close>

lemma spec_example_anchor:
  "fst (update_chart (Some [''C'']) (load five_days)) =
     Inr (update_layout ''Jan 01, 2020'' ''Jan 05, 2020''
            (add_annotation (stop_annotation ''C'' (2020, 1, 3) (Some 15))
              (add_trace (marker_trace (2020, 1, 3) (Some 15))
                (add_trace (line_trace ''C''
                    [(2020, 1, 1), (2020, 1, 2), (2020, 1, 3), (2020, 1, 4), (2020, 1, 5)]
                    [Some 10, Some 10, Some 15, Some 15, Some 12]) Figure))))"
proof -
  have ne: "rows (dataset five_days) \<noteq> []"
    by (simp add: frame_eval)
  show ?thesis
    unfolding update_chart_single [OF ne] by (simp add: frame_eval figure_eval)
qed

end
